theory Spec2Isabelle
  imports Complex_Main
begin

section \<open>JSON documents and the Python operations the bot applies to them\<close>

text \<open>
  The bot reads the bodies of its HTTP responses with \<^verbatim>\<open>resp.json()\<close> and then uses
  untyped Python operations on the result (\<^verbatim>\<open>data.get(k)\<close>, \<^verbatim>\<open>data[k]\<close>, \<^verbatim>\<open>x[0]\<close>,
  \<^verbatim>\<open>int(x)\<close>, \<^verbatim>\<open>x / 1000000\<close>, \<^verbatim>\<open>not x\<close>, iteration). A document is a value of
  \<open>json\<close>; an operation that raises in Python returns \<open>Inl\<close> of the exception.
  Numbers are integers, as all four upstream interfaces declare their amounts; an object is
  the association list of the parsed dict, read with \<open>map_of\<close>.
\<close>

datatype json =
    JNull
  | JBool bool
  | JInt int
  | JStr string
  | JArr "json list"
  | JObj "(string \<times> json) list"

datatype error =
    FetchingException
  | KeyError
  | IndexError
  | TypeError
  | ValueError
  | AttributeError
  | OverflowError
  | ClientError
  | DecodeError

text \<open>Python truth value (\<^verbatim>\<open>not x\<close> is its negation).\<close>

fun truthy :: "json \<Rightarrow> bool" where
  "truthy JNull = False"
| "truthy (JBool b) = b"
| "truthy (JInt n) = (n \<noteq> 0)"
| "truthy (JStr s) = (s \<noteq> [])"
| "truthy (JArr xs) = (xs \<noteq> [])"
| "truthy (JObj kvs) = (kvs \<noteq> [])"

text \<open>\<^verbatim>\<open>data.get(k)\<close>: only a dict has the method; a missing key gives \<^verbatim>\<open>None\<close>.\<close>

fun dict_get :: "json \<Rightarrow> string \<Rightarrow> error + json" where
  "dict_get (JObj kvs) k = Inr (case map_of kvs k of None \<Rightarrow> JNull | Some v \<Rightarrow> v)"
| "dict_get _ k = Inl AttributeError"

text \<open>\<^verbatim>\<open>data[k]\<close> with a string key: KeyError on a dict without the key, TypeError on
  every other value (a list or a string wants an integer index, the rest cannot be
  subscripted).\<close>

fun getitem :: "json \<Rightarrow> string \<Rightarrow> error + json" where
  "getitem (JObj kvs) k = (case map_of kvs k of None \<Rightarrow> Inl KeyError | Some v \<Rightarrow> Inr v)"
| "getitem _ k = Inl TypeError"

text \<open>\<^verbatim>\<open>x[0]\<close>: the first element of a list, the first character of a string; a dict
  parsed from JSON has string keys only, so the key \<^verbatim>\<open>0\<close> is missing.\<close>

fun getitem0 :: "json \<Rightarrow> error + json" where
  "getitem0 (JArr []) = Inl IndexError"
| "getitem0 (JArr (x # xs)) = Inr x"
| "getitem0 (JStr []) = Inl IndexError"
| "getitem0 (JStr (c # cs)) = Inr (JStr [c])"
| "getitem0 (JObj kvs) = Inl KeyError"
| "getitem0 _ = Inl TypeError"

text \<open>Iteration (\<^verbatim>\<open>for x in v\<close>): a list gives its elements, a dict its keys, a string
  its characters; the other values are not iterable.\<close>

fun py_iter :: "json \<Rightarrow> error + json list" where
  "py_iter (JArr xs) = Inr xs"
| "py_iter (JObj kvs) = Inr (map (\<lambda>kv. JStr (fst kv)) kvs)"
| "py_iter (JStr s) = Inr (map (\<lambda>c. JStr [c]) s)"
| "py_iter _ = Inl TypeError"

subsection \<open>\<^verbatim>\<open>int(x)\<close>\<close>

text \<open>
  On a string, \<^verbatim>\<open>int\<close> strips white space (the codes 9 to 13 and the blank, 32; the
  separators 28 to 31 are not stripped), reads an optional sign and then decimal
  digits, in which single underscores may stand between two digits. Strings are ASCII here;
  the interpreter's configurable limit on the number of digits is not part of the model.
\<close>

definition is_space :: "char \<Rightarrow> bool" where
  "is_space c = (let n = (of_char c :: nat) in (9 \<le> n \<and> n \<le> 13) \<or> n = 32)"

definition is_digit :: "char \<Rightarrow> bool" where
  "is_digit c = (let n = (of_char c :: nat) in 48 \<le> n \<and> n \<le> 57)"

definition digit_val :: "char \<Rightarrow> nat" where
  "digit_val c = of_char c - 48"

fun parse_digits :: "nat \<Rightarrow> bool \<Rightarrow> string \<Rightarrow> nat option" where
  "parse_digits acc after_digit [] = (if after_digit then Some acc else None)"
| "parse_digits acc after_digit (c # cs) =
     (if is_digit c then parse_digits (10 * acc + digit_val c) True cs
      else if c = CHR ''_'' \<and> after_digit then parse_digits acc False cs
      else None)"

definition int_of_str :: "string \<Rightarrow> int option" where
  "int_of_str s =
     (case rev (dropWhile is_space (rev (dropWhile is_space s))) of
        [] \<Rightarrow> None
      | c # cs \<Rightarrow>
          if c = CHR ''-'' then map_option (\<lambda>n. - int n) (parse_digits 0 False cs)
          else if c = CHR ''+'' then map_option int (parse_digits 0 False cs)
          else map_option int (parse_digits 0 False (c # cs)))"

fun py_int :: "json \<Rightarrow> error + int" where
  "py_int (JInt n) = Inr n"
| "py_int (JBool b) = Inr (if b then 1 else 0)"
| "py_int (JStr s) = (case int_of_str s of None \<Rightarrow> Inl ValueError | Some n \<Rightarrow> Inr n)"
| "py_int _ = Inl TypeError"

subsection \<open>Floats\<close>

text \<open>
  A Python float is an IEEE binary64 number; the model holds its exact value as a
  rational. \<open>nearest_double n d\<close> is the binary64 number nearest to \<open>n / d\<close> (for
  \<open>0 < d\<close>), ties to the even significand, with gradual underflow: with
  \<open>2 ^ p \<le> |n / d| < 2 ^ (p + 1)\<close> the quotient is rounded to a multiple of
  \<open>2 ^ (p - 52)\<close>, and of \<open>2 ^ (- 1074)\<close> at least.
\<close>

definition round_half_even :: "rat \<Rightarrow> int" where
  "round_half_even q =
     (let f = \<lfloor>q\<rfloor>; r = q - of_int f
      in if r < 1 / 2 then f
         else if 1 / 2 < r then f + 1
         else if even f then f else f + 1)"

fun bit_length :: "nat \<Rightarrow> nat" where
  "bit_length n = (if n = 0 then 0 else Suc (bit_length (n div 2)))"

declare bit_length.simps [simp del]

definition pow2 :: "int \<Rightarrow> rat" where
  "pow2 e = (if 0 \<le> e then 2 ^ nat e else 1 / 2 ^ nat (- e))"

definition nearest_double :: "int \<Rightarrow> int \<Rightarrow> rat" where
  "nearest_double n d =
     (if n = 0 then 0
      else
        let a = \<bar>of_int n / of_int d\<bar>;
            k = int (bit_length (nat \<bar>n\<bar>)) - int (bit_length (nat \<bar>d\<bar>));
            p = (if pow2 k \<le> a then k else k - 1);
            e = max (p - 52) (- 1074);
            m = round_half_even (a / pow2 e)
        in (if n < 0 then - 1 else 1) * of_int m * pow2 e)"

text \<open>\<^verbatim>\<open>a / 1000000\<close> on integers is the correctly rounded quotient, and OverflowError
  when that is beyond the largest float. The divisor is the constant of the source, so
  division by zero does not arise.\<close>

definition div_million :: "int \<Rightarrow> error + rat" where
  "div_million a =
     (let r = nearest_double a 1000000
      in if 2 ^ 1024 \<le> \<bar>r\<bar> then Inl OverflowError else Inr r)"

text \<open>\<^verbatim>\<open>x / 1000000\<close> on a JSON value: an integer or a bool is divided, anything else is
  a TypeError.\<close>

fun json_div_million :: "json \<Rightarrow> error + rat" where
  "json_div_million (JInt n) = div_million n"
| "json_div_million (JBool b) = div_million (if b then 1 else 0)"
| "json_div_million _ = Inl TypeError"

text \<open>\<^verbatim>\<open>round(x, 1)\<close> on a float: the exact value of \<open>x\<close> is rounded to one decimal,
  ties to even, and the float nearest to that decimal is returned.\<close>

definition round1 :: "rat \<Rightarrow> rat" where
  "round1 x = nearest_double (round_half_even (x * 10)) 10"

section \<open>The network, the table and the messages\<close>

text \<open>
  The bot's requests, by endpoint and arguments (the URL is an f-string over them):
  the marketplace's collection search with its \<^verbatim>\<open>nameQuery\<close> and \<^verbatim>\<open>size\<close>, its floor
  and its transactions endpoints, and the secondary provider's policy endpoint.
\<close>

datatype request =
    SearchCollections string int
  | CollectionFloor json
  | CollectionTransactions json
  | PolicyInfo json

text \<open>What \<^verbatim>\<open>bot.session.get\<close> gives: no response at all (the client raises), or a
  status with a body that \<^verbatim>\<open>resp.json()\<close> parses (\<open>Some\<close>) or fails to parse.\<close>

datatype response =
    NoResponse
  | Response int "json option"

text \<open>The services are not under the bot's control and may answer the same request
  differently each time: the network is any function of the number of requests made so
  far and the request.\<close>

type_synonym network = "nat \<Rightarrow> request \<Rightarrow> response"

record collection =
  name :: json
  display_name :: json
  policy_id :: json

text \<open>One block of the report's description: number, name, floor, supply, volume,
  last sale.\<close>

datatype entry = Entry nat json rat json rat "rat option"

text \<open>The embeds the commands send, one constructor for each text of the source, with
  the values the text is formatted from.\<close>

datatype message =
    CollectionsFetchError
  | CollectionsUnexpectedError error
  | NoCollectionsNamed string
  | FloorFetchError json
  | FloorNotFound json
  | FloorPrice json rat
  | PolicyListEmpty
  | Report "entry list"
  | AlreadyAdded
  | CollectionFetchError
  | CollectionUnexpectedError error
  | InvalidPolicyId
  | Added json
  | NotAdded
  | Removed string

text \<open>The state a command runs in: the rows of the table \<^verbatim>\<open>policies\<close> in insertion
  order, the requests made so far, and the messages sent so far.\<close>

record world =
  db :: "(int \<times> string) list"
  calls :: "request list"
  sent :: "message list"

definition http_get :: "network \<Rightarrow> request \<Rightarrow> world \<Rightarrow> response \<times> world" where
  "http_get net req w = (net (length (calls w)) req, w\<lparr>calls := calls w @ [req]\<rparr>)"

definition send :: "message \<Rightarrow> world \<Rightarrow> world" where
  "send m w = w\<lparr>sent := sent w @ [m]\<rparr>"

section \<open>The collection and its fetches\<close>

text \<open>
  Each fetch makes one request and then works on the response inside
  \<^verbatim>\<open>async with bot.session.get(url) as resp\<close>. The second step is a function of the
  response alone and is given first; the fetch is the request followed by it.
\<close>

definition floor_price_of :: "response \<Rightarrow> error + rat option" where
  "floor_price_of resp =
     (case resp of
        NoResponse \<Rightarrow> Inl ClientError
      | Response status body \<Rightarrow>
          if status = 404 then Inr None
          else if status \<noteq> 200 then Inl FetchingException
          else (case body of
                  None \<Rightarrow> Inl DecodeError
                | Some data \<Rightarrow>
                    (case getitem data ''floor'' of
                       Inl e \<Rightarrow> Inl e
                     | Inr floor_price_unprocessed \<Rightarrow>
                         if floor_price_unprocessed = JNull then Inr None
                         else (case py_int floor_price_unprocessed of
                                 Inl e \<Rightarrow> Inl e
                               | Inr n \<Rightarrow> map_sum id Some (div_million n)))))"

definition fetch_floor_price :: "network \<Rightarrow> collection \<Rightarrow> world \<Rightarrow> (error + rat option) \<times> world" where
  "fetch_floor_price net c w =
     (case http_get net (CollectionFloor (name c)) w of (resp, w') \<Rightarrow> (floor_price_of resp, w'))"

definition last_sale_of :: "response \<Rightarrow> error + rat option" where
  "last_sale_of resp =
     (case resp of
        NoResponse \<Rightarrow> Inl ClientError
      | Response status body \<Rightarrow>
          if status = 404 then Inr None
          else if status \<noteq> 200 then Inl FetchingException
          else (case body of
                  None \<Rightarrow> Inl DecodeError
                | Some data \<Rightarrow>
                    (case dict_get data ''transactions'' of
                       Inl e \<Rightarrow> Inl e
                     | Inr transactions \<Rightarrow>
                         if \<not> truthy transactions then Inr None
                         else (case getitem0 transactions of
                                 Inl e \<Rightarrow> Inl e
                               | Inr t \<Rightarrow>
                                   (case getitem t ''amount_lovelace'' of
                                      Inl e \<Rightarrow> Inl e
                                    | Inr a \<Rightarrow>
                                        (case py_int a of
                                           Inl e \<Rightarrow> Inl e
                                         | Inr n \<Rightarrow> map_sum id Some (div_million n)))))))"

definition fetch_last_sale :: "network \<Rightarrow> collection \<Rightarrow> world \<Rightarrow> (error + rat option) \<times> world" where
  "fetch_last_sale net c w =
     (case http_get net (CollectionTransactions (policy_id c)) w of (resp, w') \<Rightarrow>
        (last_sale_of resp, w'))"

text \<open>\<^verbatim>\<open>thumbnail.split("/")\<close>: the pieces between the separators, never an empty
  list; \<^verbatim>\<open>[-1]\<close> is its last piece.\<close>

fun split_on :: "char \<Rightarrow> string \<Rightarrow> string list" where
  "split_on sep [] = [[]]"
| "split_on sep (c # cs) =
     (if c = sep then [] # split_on sep cs
      else (case split_on sep cs of
              [] \<Rightarrow> [[c]]
            | p # ps \<Rightarrow> (c # p) # ps))"

text \<open>The thumbnail is tested with \<^verbatim>\<open>not thumbnail\<close>, then with \<^verbatim>\<open>'/' not in thumbnail\<close>
  and then split. On a string these are the three steps of the source. A non-empty
  list or dict passes the membership test (by element or by key) and has no \<^verbatim>\<open>split\<close>;
  a number or \<^verbatim>\<open>True\<close> does not support \<^verbatim>\<open>in\<close>.\<close>

fun thumbnail_url :: "json \<Rightarrow> error + string option" where
  "thumbnail_url (JStr t) =
     (if t = [] then Inr None
      else if CHR ''/'' \<notin> set t then Inr None
      else Inr (Some (''https://ipfs.io/ipfs/'' @ last (split_on CHR ''/'' t))))"
| "thumbnail_url (JArr xs) =
     (if xs = [] then Inr None
      else if JStr ''/'' \<notin> set xs then Inr None
      else Inl AttributeError)"
| "thumbnail_url (JObj kvs) =
     (if kvs = [] then Inr None
      else if ''/'' \<notin> fst ` set kvs then Inr None
      else Inl AttributeError)"
| "thumbnail_url thumbnail = (if \<not> truthy thumbnail then Inr None else Inl TypeError)"

definition image_url_of :: "response \<Rightarrow> error + string option" where
  "image_url_of resp =
     (case resp of
        NoResponse \<Rightarrow> Inl ClientError
      | Response status body \<Rightarrow>
          if status = 404 then Inr None
          else if status \<noteq> 200 then Inl FetchingException
          else (case body of
                  None \<Rightarrow> Inl DecodeError
                | Some data \<Rightarrow>
                    (case dict_get data ''thumbnail'' of
                       Inl e \<Rightarrow> Inl e
                     | Inr thumbnail \<Rightarrow> thumbnail_url thumbnail)))"

definition fetch_image_url :: "network \<Rightarrow> collection \<Rightarrow> world \<Rightarrow> (error + string option) \<times> world" where
  "fetch_image_url net c w =
     (case http_get net (PolicyInfo (policy_id c)) w of (resp, w') \<Rightarrow> (image_url_of resp, w'))"

section \<open>Resolving a name to collections\<close>

definition to_collection :: "json \<Rightarrow> error + collection" where
  "to_collection item =
     (case dict_get item ''url'' of
        Inl e \<Rightarrow> Inl e
      | Inr u \<Rightarrow>
          (case dict_get item ''display_name'' of
             Inl e \<Rightarrow> Inl e
           | Inr d \<Rightarrow>
               (case dict_get item ''policy_id'' of
                  Inl e \<Rightarrow> Inl e
                | Inr p \<Rightarrow> Inr \<lparr>name = u, display_name = d, policy_id = p\<rparr>)))"

text \<open>The list comprehension: the first item that raises ends it.\<close>

fun to_collections :: "json list \<Rightarrow> error + collection list" where
  "to_collections [] = Inr []"
| "to_collections (item # items) =
     (case to_collection item of
        Inl e \<Rightarrow> Inl e
      | Inr c \<Rightarrow>
          (case to_collections items of
             Inl e \<Rightarrow> Inl e
           | Inr cs \<Rightarrow> Inr (c # cs)))"

definition collections_of :: "response \<Rightarrow> error + collection list" where
  "collections_of resp =
     (case resp of
        NoResponse \<Rightarrow> Inl ClientError
      | Response status body \<Rightarrow>
          if status = 404 then Inr []
          else if status \<noteq> 200 then Inl FetchingException
          else (case body of
                  None \<Rightarrow> Inl DecodeError
                | Some data \<Rightarrow>
                    (case dict_get data ''collections'' of
                       Inl e \<Rightarrow> Inl e
                     | Inr collections \<Rightarrow>
                         if \<not> truthy collections then Inr []
                         else (case py_iter collections of
                                 Inl e \<Rightarrow> Inl e
                               | Inr items \<Rightarrow> to_collections items))))"

definition fetch_collections :: "network \<Rightarrow> string \<Rightarrow> int \<Rightarrow> world \<Rightarrow> (error + collection list) \<times> world" where
  "fetch_collections net collection_name amount w =
     (case http_get net (SearchCollections collection_name amount) w of (resp, w') \<Rightarrow>
        (collections_of resp, w'))"

section \<open>The command \<^verbatim>\<open>floor\<close>\<close>

text \<open>The loop over the collections found: only \<^verbatim>\<open>FetchingException\<close> is caught; any
  other exception of the fetch leaves the loop and the command.\<close>

fun floor_loop :: "network \<Rightarrow> collection list \<Rightarrow> world \<Rightarrow> (error + unit) \<times> world" where
  "floor_loop net [] w = (Inr (), w)"
| "floor_loop net (c # cs) w =
     (case fetch_floor_price net c w of (r, w') \<Rightarrow>
        (case r of
           Inl e \<Rightarrow>
             if e = FetchingException
             then floor_loop net cs (send (FloorFetchError (display_name c)) w')
             else (Inl e, w')
         | Inr None \<Rightarrow> floor_loop net cs (send (FloorNotFound (display_name c)) w')
         | Inr (Some floor_price) \<Rightarrow>
             floor_loop net cs (send (FloorPrice (display_name c) floor_price) w')))"

definition floor_cmd :: "network \<Rightarrow> string \<Rightarrow> world \<Rightarrow> (error + unit) \<times> world" where
  "floor_cmd net query w =
     (case fetch_collections net query 5 w of (r, w') \<Rightarrow>
        (case r of
           Inl e \<Rightarrow>
             if e = FetchingException then (Inr (), send CollectionsFetchError w')
             else (Inr (), send (CollectionsUnexpectedError e) w')
         | Inr collections \<Rightarrow>
             if collections = [] then (Inr (), send (NoCollectionsNamed query) w')
             else floor_loop net collections w'))"

section \<open>The table of policy ids\<close>

definition policy_id_exists :: "(int \<times> string) list \<Rightarrow> int \<Rightarrow> string \<Rightarrow> bool" where
  "policy_id_exists rows guild_id pid = ((guild_id, pid) \<in> set rows)"

definition get_policy_ids :: "(int \<times> string) list \<Rightarrow> int \<Rightarrow> string list" where
  "get_policy_ids rows guild_id = map snd (filter (\<lambda>row. fst row = guild_id) rows)"

text \<open>The two statements that write the table: \<^verbatim>\<open>INSERT INTO policies VALUES (?, ?)\<close>
  adds one row, whatever the table holds (it declares no uniqueness), and
  \<^verbatim>\<open>DELETE FROM policies WHERE guild_id = ? AND policy_id = ?\<close> removes every row
  with that pair.\<close>

definition insert_row :: "(int \<times> string) list \<Rightarrow> int \<Rightarrow> string \<Rightarrow> (int \<times> string) list" where
  "insert_row rows guild_id pid = rows @ [(guild_id, pid)]"

definition delete_rows :: "(int \<times> string) list \<Rightarrow> int \<Rightarrow> string \<Rightarrow> (int \<times> string) list" where
  "delete_rows rows guild_id pid = filter (\<lambda>row. \<not> (fst row = guild_id \<and> snd row = pid)) rows"

section \<open>The command \<^verbatim>\<open>pass\<close>\<close>

text \<open>The three values read from the secondary provider's document, in the order of
  the source: floor price, supply, volume.\<close>

definition read_metrics :: "json \<Rightarrow> error + rat \<times> json \<times> rat" where
  "read_metrics data =
     (case getitem data ''floor_price'' of
        Inl e \<Rightarrow> Inl e
      | Inr f \<Rightarrow>
          (case json_div_million f of
             Inl e \<Rightarrow> Inl e
           | Inr floor_price \<Rightarrow>
               (case getitem data ''asset_minted'' of
                  Inl e \<Rightarrow> Inl e
                | Inr supply \<Rightarrow>
                    (case getitem data ''total_volume'' of
                       Inl e \<Rightarrow> Inl e
                     | Inr v \<Rightarrow>
                         (case json_div_million v of
                            Inl e \<Rightarrow> Inl e
                          | Inr volume \<Rightarrow> Inr (floor_price, supply, round1 volume))))))"

text \<open>The loop over \<^verbatim>\<open>enumerate(policy_ids)\<close>; \<open>description\<close> is the text built so
  far, as its entries. No exception is caught in it.\<close>

fun pass_loop :: "network \<Rightarrow> nat \<Rightarrow> string list \<Rightarrow> entry list \<Rightarrow> world \<Rightarrow> (error + entry list) \<times> world" where
  "pass_loop net index [] description w = (Inr description, w)"
| "pass_loop net index (pid # pids) description w =
     (case fetch_collections net pid 1 w of (r, w1) \<Rightarrow>
        (case r of
           Inl e \<Rightarrow> (Inl e, w1)
         | Inr [] \<Rightarrow> pass_loop net (Suc index) pids description w1
         | Inr (c # _) \<Rightarrow>
             (case http_get net (PolicyInfo (JStr pid)) w1 of (resp, w2) \<Rightarrow>
                (case resp of
                   NoResponse \<Rightarrow> (Inl ClientError, w2)
                 | Response status body \<Rightarrow>
                     if status = 404 then pass_loop net (Suc index) pids description w2
                     else if status \<noteq> 200 then pass_loop net (Suc index) pids description w2
                     else (case body of
                             None \<Rightarrow> (Inl DecodeError, w2)
                           | Some data \<Rightarrow>
                               (case read_metrics data of
                                  Inl e \<Rightarrow> (Inl e, w2)
                                | Inr (floor_price, supply, volume) \<Rightarrow>
                                    (case fetch_last_sale net c w2 of (s, w3) \<Rightarrow>
                                       (case s of
                                          Inl e \<Rightarrow> (Inl e, w3)
                                        | Inr last_sale \<Rightarrow>
                                            pass_loop net (Suc index) pids
                                              (description @
                                                 [Entry (index + 1) (display_name c) floor_price supply volume last_sale])
                                              w3))))))))"

definition pass_cmd :: "network \<Rightarrow> int \<Rightarrow> world \<Rightarrow> (error + unit) \<times> world" where
  "pass_cmd net guild_id w =
     (let policy_ids = get_policy_ids (db w) guild_id
      in if policy_ids = [] then (Inr (), send PolicyListEmpty w)
         else (case pass_loop net 0 policy_ids [] w of (r, w') \<Rightarrow>
                 (case r of
                    Inl e \<Rightarrow> (Inl e, w')
                  | Inr description \<Rightarrow> (Inr (), send (Report description) w'))))"

section \<open>The commands \<^verbatim>\<open>insert\<close> and \<^verbatim>\<open>remove\<close>\<close>

text \<open>
  \<^verbatim>\<open>insert\<close> is a coroutine: it is suspended at each \<^verbatim>\<open>await\<close>, and the event loop
  may run another command before it goes on. Its steps are the points where it reads or
  writes the table or asks the network: the exists check, the search, and the
  \<^verbatim>\<open>INSERT\<close> with its commit. The embed is sent with the step that ends the command.
\<close>

datatype insert_state =
    Checking
  | Resolving
  | Writing collection
  | Finished

fun insert_step :: "network \<Rightarrow> int \<Rightarrow> string \<Rightarrow> insert_state \<Rightarrow> world \<Rightarrow> insert_state \<times> world" where
  "insert_step net guild_id pid Checking w =
     (if policy_id_exists (db w) guild_id pid then (Finished, send AlreadyAdded w)
      else (Resolving, w))"
| "insert_step net guild_id pid Resolving w =
     (case fetch_collections net pid 1 w of (r, w') \<Rightarrow>
        (case r of
           Inl e \<Rightarrow>
             if e = FetchingException then (Finished, send CollectionFetchError w')
             else (Finished, send (CollectionUnexpectedError e) w')
         | Inr [] \<Rightarrow> (Finished, send InvalidPolicyId w')
         | Inr (c # _) \<Rightarrow> (Writing c, w')))"
| "insert_step net guild_id pid (Writing c) w =
     (Finished, send (Added (display_name c)) (w\<lparr>db := insert_row (db w) guild_id pid\<rparr>))"
| "insert_step net guild_id pid Finished w = (Finished, w)"

text \<open>The command run alone, from its first step to its last with nothing in between.\<close>

definition insert_cmd :: "network \<Rightarrow> int \<Rightarrow> string \<Rightarrow> world \<Rightarrow> world" where
  "insert_cmd net guild_id pid w =
     (case insert_step net guild_id pid Checking w of (s1, w1) \<Rightarrow>
        (case insert_step net guild_id pid s1 w1 of (s2, w2) \<Rightarrow>
           snd (insert_step net guild_id pid s2 w2)))"

text \<open>Two \<^verbatim>\<open>insert\<close> commands in flight on the one event loop, for the pairs \<open>a\<close> and
  \<open>b\<close>: the schedule says, step by step, which of the two goes on (\<open>True\<close> for the
  first).\<close>

fun two_inserts ::
  "network \<Rightarrow> int \<times> string \<Rightarrow> int \<times> string \<Rightarrow> bool list \<Rightarrow>
   insert_state \<Rightarrow> insert_state \<Rightarrow> world \<Rightarrow> insert_state \<times> insert_state \<times> world" where
  "two_inserts net a b [] sa sb w = (sa, sb, w)"
| "two_inserts net a b (first # schedule) sa sb w =
     (if first
      then (case insert_step net (fst a) (snd a) sa w of (sa', w') \<Rightarrow>
              two_inserts net a b schedule sa' sb w')
      else (case insert_step net (fst b) (snd b) sb w of (sb', w') \<Rightarrow>
              two_inserts net a b schedule sa sb' w'))"

definition remove_cmd :: "int \<Rightarrow> string \<Rightarrow> world \<Rightarrow> world" where
  "remove_cmd guild_id pid w =
     (if \<not> policy_id_exists (db w) guild_id pid then send NotAdded w
      else send (Removed pid) (w\<lparr>db := delete_rows (db w) guild_id pid\<rparr>))"

section \<open>Reading the outcome of a command\<close>

text \<open>\<^verbatim>\<open>insert\<close> sends exactly one message; it has succeeded when that message is the
  success embed.\<close>

fun is_added :: "message \<Rightarrow> bool" where
  "is_added (Added n) = True"
| "is_added _ = False"

text \<open>The outcomes of a floor-price fetch that the loop of \<^verbatim>\<open>floor\<close> handles: a
  value, an absent value, or \<^verbatim>\<open>FetchingException\<close>.\<close>

fun handled :: "error + rat option \<Rightarrow> bool" where
  "handled (Inl e) = (e = FetchingException)"
| "handled (Inr p) = True"

text \<open>The message a candidate gets for such an outcome.\<close>

fun floor_message :: "collection \<Rightarrow> error + rat option \<Rightarrow> message" where
  "floor_message c (Inl e) = FloorFetchError (display_name c)"
| "floor_message c (Inr None) = FloorNotFound (display_name c)"
| "floor_message c (Inr (Some p)) = FloorPrice (display_name c) p"

text \<open>The \<open>i\<close>-th request after \<open>n\<close> earlier ones is for the \<open>i\<close>-th candidate: the
  candidates paired with the positions of their requests.\<close>

definition positions :: "nat \<Rightarrow> collection list \<Rightarrow> (collection \<times> nat) list" where
  "positions n cs = zip cs [n ..< n + length cs]"

definition floor_outcome :: "network \<Rightarrow> collection \<times> nat \<Rightarrow> error + rat option" where
  "floor_outcome net ci = floor_price_of (net (snd ci) (CollectionFloor (name (fst ci))))"

section \<open>Sample data\<close>

definition w0 :: world where
  "w0 = \<lparr>db = [], calls = [], sent = []\<rparr>"

definition clay :: collection where
  "clay = \<lparr>name = JStr ''claynation'', display_name = JStr ''Clay Nation'', policy_id = JStr ''p1''\<rparr>"

definition ape :: collection where
  "ape = \<lparr>name = JStr ''apesociety'', display_name = JStr ''The Ape Society'', policy_id = JStr ''p2''\<rparr>"

definition json_of_collection :: "collection \<Rightarrow> json" where
  "json_of_collection c =
     JObj [(''url'', name c), (''display_name'', display_name c), (''policy_id'', policy_id c)]"

definition search_hits :: "collection list \<Rightarrow> response" where
  "search_hits cs = Response 200 (Some (JObj [(''collections'', JArr (map json_of_collection cs))]))"

definition floor_body :: json where
  "floor_body = JObj [(''floor'', JInt 5000000)]"

definition policy_body :: json where
  "policy_body =
     JObj [(''thumbnail'', JStr ''ipfs/abc123''), (''floor_price'', JInt 5000000),
           (''asset_minted'', JInt 10000), (''total_volume'', JInt 1234567)]"

definition transactions_body :: json where
  "transactions_body = JObj [(''transactions'', JArr [JObj [(''amount_lovelace'', JInt 3000000)]])]"

text \<open>A network where everything is found.\<close>

fun net_ok :: network where
  "net_ok i (SearchCollections q n) = search_hits [clay]"
| "net_ok i (CollectionFloor n) = Response 200 (Some floor_body)"
| "net_ok i (CollectionTransactions p) = Response 200 (Some transactions_body)"
| "net_ok i (PolicyInfo p) = Response 200 (Some policy_body)"

text \<open>A network where nothing is found.\<close>

definition net_404 :: network where
  "net_404 i r = Response 404 None"

text \<open>A search that finds nothing in a well-formed answer.\<close>

definition net_no_hits :: network where
  "net_no_hits i r = Response 200 (Some (JObj [(''collections'', JArr [])]))"

text \<open>A floor endpoint whose answer holds no price.\<close>

definition net_floor_null :: network where
  "net_floor_null i r = Response 200 (Some (JObj [(''floor'', JNull)]))"

text \<open>A policy endpoint whose thumbnail has no path separator.\<close>

definition net_flat_thumbnail :: network where
  "net_flat_thumbnail i r = Response 200 (Some (JObj [(''thumbnail'', JStr ''abc123'')]))"

text \<open>A floor endpoint that answers \<^verbatim>\<open>201\<close> with a well-formed body.\<close>

definition net_201 :: network where
  "net_201 i r = Response 201 (Some floor_body)"

text \<open>A search that finds two collections, and a floor endpoint that does not answer for
  the first of them.\<close>

fun net_drop :: network where
  "net_drop i (SearchCollections q n) = search_hits [clay, ape]"
| "net_drop i (CollectionFloor n) =
     (if n = JStr ''claynation'' then NoResponse else Response 200 (Some floor_body))"
| "net_drop i r = Response 404 None"

text \<open>The same search, and a floor endpoint that answers \<^verbatim>\<open>500\<close> for the first
  collection.\<close>

fun net_500_first :: network where
  "net_500_first i (SearchCollections q n) = search_hits [clay, ape]"
| "net_500_first i (CollectionFloor n) =
     (if n = JStr ''claynation'' then Response 500 None else Response 200 (Some floor_body))"
| "net_500_first i r = Response 404 None"

text \<open>A search that answers \<^verbatim>\<open>500\<close> for the policy id \<^verbatim>\<open>bad\<close> and finds a collection
  for every other one, all else as in \<open>net_ok\<close>.\<close>

fun net_bad_search :: network where
  "net_bad_search i (SearchCollections q n) =
     (if q = ''bad'' then Response 500 None else search_hits [clay])"
| "net_bad_search i r = net_ok i r"

definition w_two :: world where
  "w_two = \<lparr>db = [(1, ''bad''), (1, ''good'')], calls = [], sent = []\<rparr>"

definition w_good :: world where
  "w_good = \<lparr>db = [(1, ''good'')], calls = [], sent = []\<rparr>"

section \<open>Facts about the requests\<close>

lemma fetch_collections_eq:
  "fetch_collections net q n w =
     (collections_of (net (length (calls w)) (SearchCollections q n)),
      w\<lparr>calls := calls w @ [SearchCollections q n]\<rparr>)"
  by (simp add: fetch_collections_def http_get_def)

lemma fetch_floor_price_eq:
  "fetch_floor_price net c w =
     (floor_price_of (net (length (calls w)) (CollectionFloor (name c))),
      w\<lparr>calls := calls w @ [CollectionFloor (name c)]\<rparr>)"
  by (simp add: fetch_floor_price_def http_get_def)

lemma fetch_image_url_eq:
  "fetch_image_url net c w =
     (image_url_of (net (length (calls w)) (PolicyInfo (policy_id c))),
      w\<lparr>calls := calls w @ [PolicyInfo (policy_id c)]\<rparr>)"
  by (simp add: fetch_image_url_def http_get_def)

lemma fetch_last_sale_eq:
  "fetch_last_sale net c w =
     (last_sale_of (net (length (calls w)) (CollectionTransactions (policy_id c))),
      w\<lparr>calls := calls w @ [CollectionTransactions (policy_id c)]\<rparr>)"
  by (simp add: fetch_last_sale_def http_get_def)

lemma search_hits_clay: "collections_of (search_hits [clay]) = Inr [clay]"
  by (simp add: collections_of_def search_hits_def json_of_collection_def to_collection_def clay_def)

lemma search_hits_clay_ape: "collections_of (search_hits [clay, ape]) = Inr [clay, ape]"
  by (simp add: collections_of_def search_hits_def json_of_collection_def to_collection_def
      clay_def ape_def)

section \<open>The table and the commands that write it\<close>

text \<open>Run alone, the three steps are the body of the source read top to bottom.\<close>

lemma insert_cmd_seq:
  "insert_cmd net guild_id pid w =
     (if policy_id_exists (db w) guild_id pid then send AlreadyAdded w
      else (case fetch_collections net pid 1 w of (r, w') \<Rightarrow>
              (case r of
                 Inl e \<Rightarrow>
                   if e = FetchingException then send CollectionFetchError w'
                   else send (CollectionUnexpectedError e) w'
               | Inr [] \<Rightarrow> send InvalidPolicyId w'
               | Inr (c # _) \<Rightarrow>
                   send (Added (display_name c)) (w'\<lparr>db := insert_row (db w') guild_id pid\<rparr>))))"
  by (simp add: insert_cmd_def fetch_collections_eq split: sum.splits list.splits)

lemma insert_cmd_db:
  "db (insert_cmd net S P w) =
     (if is_added (last (sent (insert_cmd net S P w))) then db w @ [(S, P)] else db w)"
  by (auto simp: insert_cmd_seq insert_row_def send_def fetch_collections_eq
           split: sum.splits list.splits)

lemma insert_cmd_added_fresh:
  "is_added (last (sent (insert_cmd net S P w))) \<Longrightarrow> \<not> policy_id_exists (db w) S P"
  by (auto simp: insert_cmd_seq send_def split: if_splits)

lemma insert_cmd_exists:
  "policy_id_exists (db w) S P \<Longrightarrow> insert_cmd net S P w = send AlreadyAdded w"
  by (simp add: insert_cmd_seq)

lemma count_absent:
  "\<not> policy_id_exists rows S P \<Longrightarrow> count_list (get_policy_ids rows S) P = 0"
  by (induction rows) (auto simp: policy_id_exists_def get_policy_ids_def)

lemma get_policy_ids_append:
  "get_policy_ids (rows @ rows') S = get_policy_ids rows S @ get_policy_ids rows' S"
  by (simp add: get_policy_ids_def)

lemma insert_ok_added: "is_added (last (sent (insert_cmd net_ok 1 ''p1'' w0)))"
  by (simp add: insert_cmd_seq w0_def policy_id_exists_def fetch_collections_eq
      search_hits_clay send_def)

lemma w0_fresh: "\<not> policy_id_exists (db w0) S P"
  by (simp add: w0_def policy_id_exists_def)

text \<open>
  C6, as the claim states it, at a policy id that the search does not find: \<^verbatim>\<open>insert\<close>
  answers that the id does not seem valid and writes nothing, so the check that follows
  it returns false.
\<close>

theorem track_then_exists_counterexample:
  "\<not> policy_id_exists (db (insert_cmd net_404 1 ''p1'' w0)) 1 ''p1''"
  by (simp add: insert_cmd_seq policy_id_exists_def w0_def net_404_def fetch_collections_eq
      collections_of_def send_def)

text \<open>
  C6 (amended). For every server id \<open>S\<close> and policy id \<open>P\<close>: a track of \<open>(S, P)\<close> that
  succeeds is followed by an exists check that returns true, as the \<^verbatim>\<open>INSERT\<close> it
  runs always is; after an untrack of \<open>(S, P)\<close> the check returns false; and an
  untrack of a pair that is not tracked leaves the table as it was: the command answers
  that the pair is not added and writes nothing, and the \<^verbatim>\<open>DELETE\<close> itself changes
  no table without the pair.
\<close>

theorem track_untrack_exists:
  "(is_added (last (sent (insert_cmd net S P w))) \<longrightarrow>
      policy_id_exists (db (insert_cmd net S P w)) S P)
   \<and> policy_id_exists (insert_row rows S P) S P
   \<and> \<not> policy_id_exists (db (remove_cmd S P w)) S P
   \<and> (\<not> policy_id_exists (db w) S P \<longrightarrow>
        remove_cmd S P w = send NotAdded w \<and> db (remove_cmd S P w) = db w)
   \<and> (\<not> policy_id_exists rows S P \<longrightarrow> delete_rows rows S P = rows)"
proof (intro conjI impI)
  show "policy_id_exists (db (insert_cmd net S P w)) S P"
    if "is_added (last (sent (insert_cmd net S P w)))"
    using that by (simp add: insert_cmd_db policy_id_exists_def)
  show "policy_id_exists (insert_row rows S P) S P"
    by (simp add: insert_row_def policy_id_exists_def)
  show "\<not> policy_id_exists (db (remove_cmd S P w)) S P"
    by (auto simp: remove_cmd_def delete_rows_def send_def policy_id_exists_def)
  show "remove_cmd S P w = send NotAdded w" if "\<not> policy_id_exists (db w) S P"
    using that by (simp add: remove_cmd_def)
  show "db (remove_cmd S P w) = db w" if "\<not> policy_id_exists (db w) S P"
    using that by (simp add: remove_cmd_def send_def)
  show "delete_rows rows S P = rows" if "\<not> policy_id_exists rows S P"
    using that by (auto simp: delete_rows_def policy_id_exists_def filter_id_conv)
qed

theorem track_untrack_exists_witness:
  "is_added (last (sent (insert_cmd net_ok 1 ''p1'' w0)))
   \<and> policy_id_exists (db (insert_cmd net_ok 1 ''p1'' w0)) 1 ''p1''
   \<and> \<not> policy_id_exists (db (remove_cmd 1 ''p1'' (insert_cmd net_ok 1 ''p1'' w0))) 1 ''p1''
   \<and> \<not> policy_id_exists (db w0) 1 ''p1''
   \<and> remove_cmd 1 ''p1'' w0 = send NotAdded w0
   \<and> db (remove_cmd 1 ''p1'' w0) = db w0
   \<and> delete_rows (db w0) 1 ''p1'' = db w0"
  using insert_ok_added w0_fresh [of 1 "''p1''"]
    track_untrack_exists [of net_ok 1 "''p1''" w0 "db w0"]
    track_untrack_exists [of net_ok 1 "''p1''" "insert_cmd net_ok 1 ''p1'' w0" "db w0"]
  by blast

text \<open>
  One command after the other: after a track of \<open>(S, P)\<close> that succeeds, the list of
  \<open>S\<close> contains \<open>P\<close> exactly once, and a second track of \<open>(S, P)\<close> that starts after
  the first has ended is rejected by the exists check, whatever the network answers: it
  sends the rejection and neither writes nor makes a request.
\<close>

lemma track_once:
  "(is_added (last (sent (insert_cmd net S P w))) \<longrightarrow>
      count_list (get_policy_ids (db (insert_cmd net S P w)) S) P = 1
      \<and> insert_cmd net' S P (insert_cmd net S P w) = send AlreadyAdded (insert_cmd net S P w))
   \<and> (policy_id_exists (db w) S P \<longrightarrow> insert_cmd net S P w = send AlreadyAdded w)
   \<and> (count_list (get_policy_ids (db w) S) P \<le> 1 \<longrightarrow>
        count_list (get_policy_ids (db (insert_cmd net S P w)) S) P \<le> 1)"
proof -
  have once: "count_list (get_policy_ids (db (insert_cmd net S P w)) S) P = 1"
    and again: "insert_cmd net' S P (insert_cmd net S P w) = send AlreadyAdded (insert_cmd net S P w)"
    if a: "is_added (last (sent (insert_cmd net S P w)))"
  proof -
    from a have d: "db (insert_cmd net S P w) = db w @ [(S, P)]"
      by (simp add: insert_cmd_db)
    from a have "count_list (get_policy_ids (db w) S) P = 0"
      by (simp add: insert_cmd_added_fresh count_absent)
    then show "count_list (get_policy_ids (db (insert_cmd net S P w)) S) P = 1"
      by (simp add: d get_policy_ids_append) (simp add: get_policy_ids_def)
    from d have "policy_id_exists (db (insert_cmd net S P w)) S P"
      by (simp add: policy_id_exists_def)
    then show "insert_cmd net' S P (insert_cmd net S P w) = send AlreadyAdded (insert_cmd net S P w)"
      by (rule insert_cmd_exists)
  qed
  have keep: "count_list (get_policy_ids (db (insert_cmd net S P w)) S) P \<le> 1"
    if "count_list (get_policy_ids (db w) S) P \<le> 1"
  proof (cases "is_added (last (sent (insert_cmd net S P w)))")
    case True
    then show ?thesis by (simp add: once)
  next
    case False
    with that show ?thesis by (simp add: insert_cmd_db)
  qed
  from once again keep insert_cmd_exists show ?thesis by blast
qed

text \<open>
  C7, at two tracks of the pair \<open>(1, p1)\<close> that are in flight at once on an empty table.
  Each passes the exists check before the other has written, since the search is awaited
  between the check and the \<^verbatim>\<open>INSERT\<close> and the table declares no uniqueness: both
  write, both report success, and the list of the server holds \<open>p1\<close> twice. With the
  same two commands one after the other the second is rejected and the list holds \<open>p1\<close>
  once.
\<close>

theorem track_race_duplicate:
  "two_inserts net_ok (1, ''p1'') (1, ''p1'') [True, False, True, False, True, False]
     Checking Checking w0 =
     (Finished, Finished,
      \<lparr>db = [(1, ''p1''), (1, ''p1'')],
       calls = [SearchCollections ''p1'' 1, SearchCollections ''p1'' 1],
       sent = [Added (JStr ''Clay Nation''), Added (JStr ''Clay Nation'')]\<rparr>)
   \<and> get_policy_ids [(1, ''p1''), (1, ''p1'')] 1 = [''p1'', ''p1'']
   \<and> two_inserts net_ok (1, ''p1'') (1, ''p1'') [True, True, True, False, False, False]
     Checking Checking w0 =
     (Finished, Finished,
      \<lparr>db = [(1, ''p1'')],
       calls = [SearchCollections ''p1'' 1],
       sent = [Added (JStr ''Clay Nation''), AlreadyAdded]\<rparr>)"
proof (intro conjI)
  show "two_inserts net_ok (1, ''p1'') (1, ''p1'') [True, False, True, False, True, False]
     Checking Checking w0 =
     (Finished, Finished,
      \<lparr>db = [(1, ''p1''), (1, ''p1'')],
       calls = [SearchCollections ''p1'' 1, SearchCollections ''p1'' 1],
       sent = [Added (JStr ''Clay Nation''), Added (JStr ''Clay Nation'')]\<rparr>)"
    by (simp add: w0_def policy_id_exists_def fetch_collections_eq search_hits_clay send_def
        insert_row_def)
      (simp add: clay_def)
  show "get_policy_ids [(1, ''p1''), (1, ''p1'')] 1 = [''p1'', ''p1'']"
    by (simp add: get_policy_ids_def)
  show "two_inserts net_ok (1, ''p1'') (1, ''p1'') [True, True, True, False, False, False]
     Checking Checking w0 =
     (Finished, Finished,
      \<lparr>db = [(1, ''p1'')],
       calls = [SearchCollections ''p1'' 1],
       sent = [Added (JStr ''Clay Nation''), AlreadyAdded]\<rparr>)"
    by (simp add: w0_def policy_id_exists_def fetch_collections_eq search_hits_clay send_def
        insert_row_def)
      (simp add: clay_def)
qed

text \<open>
  C10. \<^verbatim>\<open>insert\<close> resolves the policy id by a search before it writes: when the search
  raises (any exception \<open>e\<close>) or finds no collection, the table is left as it was; and
  whenever \<^verbatim>\<open>insert\<close> changes the table, the search has found at least one collection
  and the change is the one row \<open>(S, P)\<close>.
\<close>

theorem track_validates:
  "(fst (fetch_collections net P 1 w) = Inl e \<longrightarrow> db (insert_cmd net S P w) = db w)
   \<and> (fst (fetch_collections net P 1 w) = Inr [] \<longrightarrow> db (insert_cmd net S P w) = db w)
   \<and> (db (insert_cmd net S P w) \<noteq> db w \<longrightarrow>
        (\<exists>c cs. fst (fetch_collections net P 1 w) = Inr (c # cs))
        \<and> db (insert_cmd net S P w) = db w @ [(S, P)])"
proof (intro conjI impI)
  let ?r = "collections_of (net (length (calls w)) (SearchCollections P 1))"
  have r: "fst (fetch_collections net P 1 w) = ?r"
    by (simp add: fetch_collections_eq)
  show "db (insert_cmd net S P w) = db w" if "fst (fetch_collections net P 1 w) = Inl e"
    using that by (simp add: insert_cmd_seq send_def fetch_collections_eq)
  show "db (insert_cmd net S P w) = db w" if "fst (fetch_collections net P 1 w) = Inr []"
    using that by (simp add: insert_cmd_seq send_def fetch_collections_eq)
  assume changed: "db (insert_cmd net S P w) \<noteq> db w"
  then have fresh: "\<not> policy_id_exists (db w) S P"
    by (auto simp: insert_cmd_seq send_def)
  from changed fresh have "\<exists>c cs. ?r = Inr (c # cs)"
    by (auto simp: insert_cmd_seq send_def fetch_collections_eq
             split: sum.splits list.splits if_splits)
  then obtain c cs where found: "?r = Inr (c # cs)"
    by blast
  then show "\<exists>c cs. fst (fetch_collections net P 1 w) = Inr (c # cs)"
    by (simp add: r)
  from fresh found show "db (insert_cmd net S P w) = db w @ [(S, P)]"
    by (simp add: insert_cmd_seq insert_row_def send_def fetch_collections_eq)
qed

theorem track_validates_witness:
  "fst (fetch_collections net_bad_search ''bad'' 1 w0) = Inl FetchingException
   \<and> db (insert_cmd net_bad_search 1 ''bad'' w0) = db w0
   \<and> fst (fetch_collections net_404 ''p1'' 1 w0) = Inr []
   \<and> db (insert_cmd net_404 1 ''p1'' w0) = db w0
   \<and> db (insert_cmd net_ok 1 ''p1'' w0) \<noteq> db w0
   \<and> (\<exists>c cs. fst (fetch_collections net_ok ''p1'' 1 w0) = Inr (c # cs))
   \<and> db (insert_cmd net_ok 1 ''p1'' w0) = db w0 @ [(1, ''p1'')]"
proof -
  have a: "fst (fetch_collections net_bad_search ''bad'' 1 w0) = Inl FetchingException"
    by (simp add: fetch_collections_eq collections_of_def)
  have b: "fst (fetch_collections net_404 ''p1'' 1 w0) = Inr []"
    by (simp add: fetch_collections_eq collections_of_def net_404_def)
  have c: "db (insert_cmd net_ok 1 ''p1'' w0) \<noteq> db w0"
    using insert_ok_added by (simp add: insert_cmd_db [of net_ok 1 "''p1''" w0])
  from a b c
    track_validates [of net_bad_search "''bad''" w0 FetchingException 1]
    track_validates [of net_404 "''p1''" w0 FetchingException 1]
    track_validates [of net_ok "''p1''" w0 FetchingException 1]
  show ?thesis by blast
qed

text \<open>
  C8. For a server id without a row in the table, the list of its policy ids is empty,
  and \<^verbatim>\<open>pass\<close> sends the message that the list is empty and returns: the requests
  made are the ones made before, and nothing else in the state changes.
\<close>

theorem pass_empty_list:
  "guild_id \<notin> fst ` set (db w) \<Longrightarrow>
     get_policy_ids (db w) guild_id = []
     \<and> pass_cmd net guild_id w = (Inr (), w\<lparr>sent := sent w @ [PolicyListEmpty]\<rparr>)
     \<and> calls (snd (pass_cmd net guild_id w)) = calls w"
proof -
  assume "guild_id \<notin> fst ` set (db w)"
  then have "filter (\<lambda>row. fst row = guild_id) (db w) = []"
    by (auto simp: filter_empty_conv)
  then have "get_policy_ids (db w) guild_id = []"
    by (simp add: get_policy_ids_def)
  then show ?thesis by (simp add: pass_cmd_def send_def)
qed

theorem pass_empty_list_witness:
  "2 \<notin> fst ` set (db w_good)
   \<and> get_policy_ids (db w_good) 2 = []
   \<and> pass_cmd net_ok 2 w_good = (Inr (), w_good\<lparr>sent := sent w_good @ [PolicyListEmpty]\<rparr>)
   \<and> calls (snd (pass_cmd net_ok 2 w_good)) = calls w_good"
proof -
  have h: "2 \<notin> fst ` set (db w_good)" by (simp add: w_good_def)
  from h pass_empty_list [OF h, of net_ok] show ?thesis by blast
qed

section \<open>Floats at the sample amounts\<close>

lemma floor_rat_numeral: "\<lfloor>numeral a / numeral b :: rat\<rfloor> = numeral a div numeral b"
  by (metis floor_divide_of_int_eq of_int_numeral)

lemma bit_length_5000000: "bit_length 5000000 = 23"
  by (simp add: bit_length.simps)

lemma bit_length_3000000: "bit_length 3000000 = 22"
  by (simp add: bit_length.simps)

lemma bit_length_1234567: "bit_length 1234567 = 21"
  by (simp add: bit_length.simps)

lemma bit_length_1000000: "bit_length 1000000 = 20"
  by (simp add: bit_length.simps)

lemma bit_length_12: "bit_length 12 = 4"
  by (simp add: bit_length.simps)

lemma bit_length_10: "bit_length 10 = 4"
  by (simp add: bit_length.simps)

lemma double_5: "nearest_double 5000000 1000000 = 5"
  by (simp add: nearest_double_def bit_length_5000000 bit_length_1000000 pow2_def
      round_half_even_def Let_def floor_rat_numeral)

lemma double_3: "nearest_double 3000000 1000000 = 3"
  by (simp add: nearest_double_def bit_length_3000000 bit_length_1000000 pow2_def
      round_half_even_def Let_def floor_rat_numeral)

lemma double_volume: "nearest_double 1234567 1000000 = 5559995481163911 / 4503599627370496"
  by (simp add: nearest_double_def bit_length_1234567 bit_length_1000000 pow2_def
      round_half_even_def Let_def floor_rat_numeral)

lemma double_12_10: "nearest_double 12 10 = 5404319552844595 / 4503599627370496"
  by (simp add: nearest_double_def bit_length_12 bit_length_10 pow2_def
      round_half_even_def Let_def floor_rat_numeral)

lemma round1_volume: "round1 (nearest_double 1234567 1000000) = nearest_double 12 10"
  by (simp add: round1_def double_volume round_half_even_def Let_def floor_rat_numeral)

lemma div_million_5: "div_million 5000000 = Inr 5"
  by (simp add: div_million_def double_5)

lemma div_million_3: "div_million 3000000 = Inr 3"
  by (simp add: div_million_def double_3)

lemma div_million_volume: "div_million 1234567 = Inr (nearest_double 1234567 1000000)"
  by (simp add: div_million_def double_volume)

lemma floor_ok: "floor_price_of (Response 200 (Some floor_body)) = Inr (Some 5)"
  by (simp add: floor_price_of_def floor_body_def div_million_5)

lemma last_sale_ok: "last_sale_of (Response 200 (Some transactions_body)) = Inr (Some 3)"
  by (simp add: last_sale_of_def transactions_body_def div_million_3)

lemma read_metrics_policy_body:
  "read_metrics policy_body = Inr (5, JInt 10000, nearest_double 12 10)"
  by (simp add: read_metrics_def policy_body_def div_million_5 div_million_volume round1_volume)

section \<open>The fetches\<close>

text \<open>A separator before the digits is not white space for \<^verbatim>\<open>int\<close>: the conversion
  raises.\<close>

lemma py_int_separator: "py_int (JStr [CHR 0x1C, CHR ''5'']) = Inl ValueError"
  by (simp add: int_of_str_def is_space_def is_digit_def)

lemma py_int_blanks: "py_int (JStr '' 5000000 '') = Inr 5000000"
  by (simp add: int_of_str_def is_space_def is_digit_def digit_val_def)

lemma getitem_not_fetching: "getitem d k \<noteq> Inl FetchingException"
  by (cases d) (auto split: option.splits)

lemma py_int_not_fetching: "py_int v \<noteq> Inl FetchingException"
  by (cases v) (auto split: option.splits)

lemma div_million_not_fetching: "map_sum id Some (div_million n) \<noteq> Inl FetchingException"
  by (auto simp: div_million_def Let_def)

lemma floor_price_of_200: "floor_price_of (Response 200 body) \<noteq> Inl FetchingException"
  using getitem_not_fetching py_int_not_fetching div_million_not_fetching
  by (auto simp: floor_price_of_def split: option.splits sum.splits)

text \<open>
  C3, as the claim states it, at the status \<^verbatim>\<open>201\<close>: the status is a 2xx one and the
  body holds a price, and the fetch raises \<^verbatim>\<open>FetchingException\<close>.
\<close>

theorem fetch_floor_price_201_counterexample:
  "net_201 (length (calls w0)) (CollectionFloor (name clay)) = Response 201 (Some floor_body)
   \<and> fst (fetch_floor_price net_201 clay w0) = Inl FetchingException"
  by (simp add: net_201_def fetch_floor_price_eq floor_price_of_def)

text \<open>
  C3 (amended). On a response with status \<^verbatim>\<open>404\<close> the fetch returns absent; on a
  response with status \<^verbatim>\<open>200\<close> whose floor field is null it returns absent; on a
  response with status \<^verbatim>\<open>200\<close> whose floor field is the integer \<open>n\<close> it returns
  the float nearest to \<open>n / 10^6\<close>, or raises \<^verbatim>\<open>OverflowError\<close> when that is beyond
  the largest float; and it raises
  \<^verbatim>\<open>FetchingException\<close> exactly on the statuses other than \<^verbatim>\<open>200\<close> and \<^verbatim>\<open>404\<close>.
\<close>

theorem fetch_floor_price_cases:
  assumes "net (length (calls w)) (CollectionFloor (name c)) = Response status body"
  shows "(status = 404 \<longrightarrow> fst (fetch_floor_price net c w) = Inr None)
       \<and> (status = 200 \<and> body = Some (JObj kvs) \<and> map_of kvs ''floor'' = Some JNull \<longrightarrow>
            fst (fetch_floor_price net c w) = Inr None)
       \<and> (status = 200 \<and> body = Some (JObj kvs) \<and> map_of kvs ''floor'' = Some (JInt n) \<longrightarrow>
            fst (fetch_floor_price net c w) =
              (if 2 ^ 1024 \<le> \<bar>nearest_double n 1000000\<bar> then Inl OverflowError
               else Inr (Some (nearest_double n 1000000))))
       \<and> (fst (fetch_floor_price net c w) = Inl FetchingException
            \<longleftrightarrow> status \<noteq> 200 \<and> status \<noteq> 404)"
  using assms floor_price_of_200 [of body]
  by (auto simp: fetch_floor_price_eq) (auto simp: floor_price_of_def div_million_def Let_def)

theorem fetch_floor_price_cases_witness:
  "fst (fetch_floor_price net_404 clay w0) = Inr None
   \<and> fst (fetch_floor_price net_floor_null clay w0) = Inr None
   \<and> fst (fetch_floor_price net_ok clay w0) = Inr (Some 5)
   \<and> fst (fetch_floor_price net_500_first clay w0) = Inl FetchingException"
proof -
  have a: "net_404 (length (calls w0)) (CollectionFloor (name clay)) = Response 404 None"
    by (simp add: net_404_def)
  have b: "net_floor_null (length (calls w0)) (CollectionFloor (name clay))
             = Response 200 (Some (JObj [(''floor'', JNull)]))"
    by (simp add: net_floor_null_def)
  have c: "net_ok (length (calls w0)) (CollectionFloor (name clay))
             = Response 200 (Some (JObj [(''floor'', JInt 5000000)]))"
    by (simp add: floor_body_def)
  have d: "net_500_first (length (calls w0)) (CollectionFloor (name clay)) = Response 500 None"
    by (simp add: clay_def)
  from fetch_floor_price_cases [where net = net_404 and w = w0 and c = clay, OF a]
    fetch_floor_price_cases [where net = net_floor_null and w = w0 and c = clay
      and kvs = "[(''floor'', JNull)]", OF b]
    fetch_floor_price_cases [where net = net_ok and w = w0 and c = clay
      and kvs = "[(''floor'', JInt 5000000)]" and n = 5000000, OF c]
    fetch_floor_price_cases [where net = net_500_first and w = w0 and c = clay, OF d]
  show ?thesis by (simp add: double_5)
qed

subsection \<open>The image URL\<close>

lemma split_on_no_sep: "sep \<notin> set s \<Longrightarrow> split_on sep s = [s]"
  by (induction s) auto

lemma split_on_not_Nil: "split_on sep s \<noteq> []"
  by (induction s) (auto split: list.splits)

lemma length_split_on: "length (split_on sep s) = Suc (count_list s sep)"
  by (induction s) (auto split: list.splits)

lemma last_split_on_append:
  "last (split_on sep (pre @ sep # seg)) = last (split_on sep seg)"
proof (induction pre)
  case Nil
  then show ?case by (simp add: split_on_not_Nil)
next
  case (Cons a pre)
  have "length (split_on sep (pre @ sep # seg)) \<ge> 2"
    by (simp add: length_split_on)
  then obtain p q ps where "split_on sep (pre @ sep # seg) = p # q # ps"
    by (cases "split_on sep (pre @ sep # seg)"; cases "tl (split_on sep (pre @ sep # seg))") auto
  with Cons show ?case by auto
qed

lemma last_split_on: "sep \<notin> set seg \<Longrightarrow> last (split_on sep (pre @ sep # seg)) = seg"
  by (simp add: last_split_on_append split_on_no_sep)

text \<open>
  C9. On a response with status \<^verbatim>\<open>200\<close> and a JSON object as body: when the thumbnail
  field is missing, null or empty, the fetch returns absent; when the thumbnail is a
  string without \<^verbatim>\<open>/\<close>, it returns absent; when the thumbnail is a string \<open>t\<close> with a
  \<^verbatim>\<open>/\<close>, then \<open>t\<close> is \<open>pre/seg\<close> with no \<^verbatim>\<open>/\<close> in \<open>seg\<close>, and the fetch returns the
  gateway URL that ends in \<open>seg\<close>; for the thumbnail \<^verbatim>\<open>ipfs/abc123\<close> that URL is
  \<^verbatim>\<open>https://ipfs.io/ipfs/abc123\<close>.
\<close>

theorem fetch_image_url_thumbnail:
  assumes "net (length (calls w)) (PolicyInfo (policy_id c)) = Response 200 (Some (JObj kvs))"
  shows "(\<not> truthy (case map_of kvs ''thumbnail'' of None \<Rightarrow> JNull | Some v \<Rightarrow> v) \<longrightarrow>
            fst (fetch_image_url net c w) = Inr None)
       \<and> (map_of kvs ''thumbnail'' = Some (JStr t) \<and> CHR ''/'' \<notin> set t \<longrightarrow>
            fst (fetch_image_url net c w) = Inr None)
       \<and> (map_of kvs ''thumbnail'' = Some (JStr t) \<and> CHR ''/'' \<in> set t \<longrightarrow>
            (\<exists>pre seg. t = pre @ ''/'' @ seg \<and> CHR ''/'' \<notin> set seg
               \<and> fst (fetch_image_url net c w) = Inr (Some (''https://ipfs.io/ipfs/'' @ seg))))
       \<and> (map_of kvs ''thumbnail'' = Some (JStr ''ipfs/abc123'') \<longrightarrow>
            fst (fetch_image_url net c w) = Inr (Some ''https://ipfs.io/ipfs/abc123''))"
proof (intro conjI impI)
  let ?v = "case map_of kvs ''thumbnail'' of None \<Rightarrow> JNull | Some v \<Rightarrow> v"
  have eq: "fst (fetch_image_url net c w) = thumbnail_url ?v"
    using assms by (simp add: fetch_image_url_eq image_url_of_def)
  show "fst (fetch_image_url net c w) = Inr None" if "\<not> truthy ?v"
    using that unfolding eq by (cases ?v) auto
  show "fst (fetch_image_url net c w) = Inr None"
    if "map_of kvs ''thumbnail'' = Some (JStr t) \<and> CHR ''/'' \<notin> set t"
    using that unfolding eq by simp
  show "\<exists>pre seg. t = pre @ ''/'' @ seg \<and> CHR ''/'' \<notin> set seg
               \<and> fst (fetch_image_url net c w) = Inr (Some (''https://ipfs.io/ipfs/'' @ seg))"
    if h: "map_of kvs ''thumbnail'' = Some (JStr t) \<and> CHR ''/'' \<in> set t"
  proof -
    from h obtain pre seg where t: "t = pre @ CHR ''/'' # seg" and n: "CHR ''/'' \<notin> set seg"
      by (meson split_list_last)
    from h have "t \<noteq> []" by auto
    with h have "fst (fetch_image_url net c w)
                   = Inr (Some (''https://ipfs.io/ipfs/'' @ last (split_on CHR ''/'' t)))"
      unfolding eq by simp
    with t n have "fst (fetch_image_url net c w) = Inr (Some (''https://ipfs.io/ipfs/'' @ seg))"
      by (simp add: last_split_on)
    with t n show ?thesis by auto
  qed
  show "fst (fetch_image_url net c w) = Inr (Some ''https://ipfs.io/ipfs/abc123'')"
    if "map_of kvs ''thumbnail'' = Some (JStr ''ipfs/abc123'')"
    using that unfolding eq by simp
qed

theorem fetch_image_url_thumbnail_witness:
  "fst (fetch_image_url net_no_hits clay w0) = Inr None
   \<and> fst (fetch_image_url net_flat_thumbnail clay w0) = Inr None
   \<and> (\<exists>pre seg. ''ipfs/abc123'' = pre @ ''/'' @ seg \<and> CHR ''/'' \<notin> set seg
         \<and> fst (fetch_image_url net_ok clay w0) = Inr (Some (''https://ipfs.io/ipfs/'' @ seg)))
   \<and> fst (fetch_image_url net_ok clay w0) = Inr (Some ''https://ipfs.io/ipfs/abc123'')"
proof -
  have a: "net_no_hits (length (calls w0)) (PolicyInfo (policy_id clay))
             = Response 200 (Some (JObj [(''collections'', JArr [])]))"
    by (simp add: net_no_hits_def)
  have b: "net_flat_thumbnail (length (calls w0)) (PolicyInfo (policy_id clay))
             = Response 200 (Some (JObj [(''thumbnail'', JStr ''abc123'')]))"
    by (simp add: net_flat_thumbnail_def)
  have c: "net_ok (length (calls w0)) (PolicyInfo (policy_id clay))
             = Response 200 (Some (JObj [(''thumbnail'', JStr ''ipfs/abc123''),
                 (''floor_price'', JInt 5000000), (''asset_minted'', JInt 10000),
                 (''total_volume'', JInt 1234567)]))"
    by (simp add: policy_body_def)
  from fetch_image_url_thumbnail [where net = net_no_hits and w = w0 and c = clay, OF a]
    fetch_image_url_thumbnail [where net = net_flat_thumbnail and w = w0 and c = clay
      and t = "''abc123''", OF b]
    fetch_image_url_thumbnail [where net = net_ok and w = w0 and c = clay
      and t = "''ipfs/abc123''", OF c]
  show ?thesis by simp
qed

section \<open>The command \<^verbatim>\<open>floor\<close>\<close>

text \<open>
  C5. When the search of \<^verbatim>\<open>floor\<close> is answered with status \<^verbatim>\<open>404\<close>, or with status
  \<^verbatim>\<open>200\<close> and a document whose \<^verbatim>\<open>collections\<close> is missing or empty, the command
  sends the message that no collection of that name was found and returns; the search is
  the one request it has made.
\<close>

theorem floor_not_found:
  assumes "net (length (calls w)) (SearchCollections q 5) = Response status body"
    and "status = 404
         \<or> (status = 200 \<and> body = Some data \<and> dict_get data ''collections'' = Inr cs \<and> \<not> truthy cs)"
  shows "floor_cmd net q w =
           (Inr (), w\<lparr>calls := calls w @ [SearchCollections q 5],
                      sent := sent w @ [NoCollectionsNamed q]\<rparr>)"
proof -
  from assms have "collections_of (net (length (calls w)) (SearchCollections q 5)) = Inr []"
    by (auto simp: collections_of_def)
  then show ?thesis
    by (simp add: floor_cmd_def fetch_collections_eq send_def)
qed

theorem floor_not_found_witness:
  "floor_cmd net_404 ''clay'' w0 =
     (Inr (), w0\<lparr>calls := calls w0 @ [SearchCollections ''clay'' 5],
                 sent := sent w0 @ [NoCollectionsNamed ''clay'']\<rparr>)
   \<and> floor_cmd net_no_hits ''clay'' w0 =
     (Inr (), w0\<lparr>calls := calls w0 @ [SearchCollections ''clay'' 5],
                 sent := sent w0 @ [NoCollectionsNamed ''clay'']\<rparr>)"
proof -
  have a: "net_404 (length (calls w0)) (SearchCollections ''clay'' 5) = Response 404 None"
    by (simp add: net_404_def)
  have b: "net_no_hits (length (calls w0)) (SearchCollections ''clay'' 5)
             = Response 200 (Some (JObj [(''collections'', JArr [])]))"
    by (simp add: net_no_hits_def)
  have b': "(200::int) = 404
         \<or> ((200::int) = 200 \<and> Some (JObj [(''collections'', JArr [])]) = Some (JObj [(''collections'', JArr [])])
             \<and> dict_get (JObj [(''collections'', JArr [])]) ''collections'' = Inr (JArr [])
             \<and> \<not> truthy (JArr []))"
    by simp
  from floor_not_found [where net = net_404 and w = w0, OF a]
    floor_not_found [where net = net_no_hits and w = w0, OF b b']
  show ?thesis by simp
qed

subsection \<open>The loop over the candidates\<close>

lemma positions_Cons: "positions n (c # cs) = (c, n) # positions (Suc n) cs"
  by (simp add: positions_def upt_conv_Cons del: upt_Suc)

lemma positions_Nil: "positions n [] = []"
  by (simp add: positions_def)

text \<open>When every fetch returns a price, returns absent or raises
  \<^verbatim>\<open>FetchingException\<close>, the loop runs to the end of the list and sends one message
  for each candidate, in order. Induction on the candidates, for any state the loop
  starts in.\<close>

lemma floor_loop_handled:
  "list_all (\<lambda>ci. handled (floor_outcome net ci)) (positions (length (calls w)) cs) \<Longrightarrow>
   floor_loop net cs w =
     (Inr (), w\<lparr>calls := calls w @ map (\<lambda>c. CollectionFloor (name c)) cs,
                sent := sent w @ map (\<lambda>ci. floor_message (fst ci) (floor_outcome net ci))
                                     (positions (length (calls w)) cs)\<rparr>)"
proof (induction cs arbitrary: w)
  case Nil
  then show ?case by (simp add: positions_Nil)
next
  case (Cons c cs)
  let ?r = "floor_price_of (net (length (calls w)) (CollectionFloor (name c)))"
  let ?w = "send (floor_message c ?r) (w\<lparr>calls := calls w @ [CollectionFloor (name c)]\<rparr>)"
  from Cons.prems have h: "handled ?r"
    and rest: "list_all (\<lambda>ci. handled (floor_outcome net ci)) (positions (length (calls ?w)) cs)"
    by (simp_all add: positions_Cons floor_outcome_def send_def)
  from h have step: "floor_loop net (c # cs) w = floor_loop net cs ?w"
    by (cases ?r rule: handled.cases) (auto simp: fetch_floor_price_eq split: option.splits)
  show ?case
    unfolding step Cons.IH [OF rest]
    by (simp add: send_def positions_Cons floor_outcome_def)
qed

text \<open>
  C2, at two candidates of which the first gets no response to its floor request: the
  client's exception is not a \<^verbatim>\<open>FetchingException\<close>, the loop does not catch it, and
  it ends the loop and the command. Nothing is sent for the first candidate, and the
  second, whose fetch would have returned the price 5, is never asked for. When the
  first request is answered with status \<^verbatim>\<open>500\<close> instead, the same loop sends the error
  entry of the first candidate and the record of the second.
\<close>

theorem floor_aborts_on_client_error:
  "floor_cmd net_drop ''clay'' w0 =
     (Inl ClientError,
      \<lparr>db = [], calls = [SearchCollections ''clay'' 5, CollectionFloor (JStr ''claynation'')],
       sent = []\<rparr>)
   \<and> floor_outcome net_drop (ape, 2) = Inr (Some 5)
   \<and> floor_cmd net_500_first ''clay'' w0 =
     (Inr (),
      \<lparr>db = [],
       calls = [SearchCollections ''clay'' 5, CollectionFloor (JStr ''claynation''),
                CollectionFloor (JStr ''apesociety'')],
       sent = [FloorFetchError (JStr ''Clay Nation''), FloorPrice (JStr ''The Ape Society'') 5]\<rparr>)"
proof (intro conjI)
  show "floor_cmd net_drop ''clay'' w0 =
     (Inl ClientError,
      \<lparr>db = [], calls = [SearchCollections ''clay'' 5, CollectionFloor (JStr ''claynation'')],
       sent = []\<rparr>)"
    by (simp add: floor_cmd_def fetch_collections_eq search_hits_clay_ape fetch_floor_price_eq)
      (simp add: clay_def w0_def floor_price_of_def)
  show "floor_outcome net_drop (ape, 2) = Inr (Some 5)"
    by (simp add: floor_outcome_def ape_def floor_ok)
  show "floor_cmd net_500_first ''clay'' w0 =
     (Inr (),
      \<lparr>db = [],
       calls = [SearchCollections ''clay'' 5, CollectionFloor (JStr ''claynation''),
                CollectionFloor (JStr ''apesociety'')],
       sent = [FloorFetchError (JStr ''Clay Nation''), FloorPrice (JStr ''The Ape Society'') 5]\<rparr>)"
    by (simp add: floor_cmd_def fetch_collections_eq search_hits_clay_ape)
      (simp add: fetch_floor_price_eq send_def clay_def ape_def w0_def floor_price_of_def
        floor_body_def div_million_5)
qed

section \<open>The command \<^verbatim>\<open>pass\<close>\<close>

text \<open>
  C1, at a list of two policy ids where the search for the first is answered with
  status \<^verbatim>\<open>500\<close>: \<^verbatim>\<open>fetch_collections\<close> raises \<^verbatim>\<open>FetchingException\<close>, the loop of
  \<^verbatim>\<open>pass\<close> does not catch it, and the command ends with that exception after one
  request, without a report. With the second policy id alone the same network gives a
  report of one entry.
\<close>

theorem pass_aborts_on_search_error:
  "pass_cmd net_bad_search 1 w_two =
     (Inl FetchingException,
      \<lparr>db = [(1, ''bad''), (1, ''good'')], calls = [SearchCollections ''bad'' 1], sent = []\<rparr>)
   \<and> pass_cmd net_bad_search 1 w_good =
     (Inr (),
      \<lparr>db = [(1, ''good'')],
       calls = [SearchCollections ''good'' 1, PolicyInfo (JStr ''good''),
                CollectionTransactions (JStr ''p1'')],
       sent = [Report [Entry 1 (JStr ''Clay Nation'') 5 (JInt 10000) (nearest_double 12 10)
                         (Some 3)]]\<rparr>)"
proof
  show "pass_cmd net_bad_search 1 w_two =
     (Inl FetchingException,
      \<lparr>db = [(1, ''bad''), (1, ''good'')], calls = [SearchCollections ''bad'' 1], sent = []\<rparr>)"
    by (simp add: pass_cmd_def w_two_def get_policy_ids_def fetch_collections_eq collections_of_def)
  show "pass_cmd net_bad_search 1 w_good =
     (Inr (),
      \<lparr>db = [(1, ''good'')],
       calls = [SearchCollections ''good'' 1, PolicyInfo (JStr ''good''),
                CollectionTransactions (JStr ''p1'')],
       sent = [Report [Entry 1 (JStr ''Clay Nation'') 5 (JInt 10000) (nearest_double 12 10)
                         (Some 3)]]\<rparr>)"
    by (simp add: pass_cmd_def w_good_def get_policy_ids_def fetch_collections_eq search_hits_clay
        http_get_def read_metrics_policy_body fetch_last_sale_eq last_sale_ok send_def)
      (simp add: clay_def)
qed

text \<open>
  C4. A floor field of \<^verbatim>\<open>5000000\<close> is fetched as the float 5, and a document with the
  floor price \<^verbatim>\<open>5000000\<close> and the total volume \<^verbatim>\<open>1234567\<close> is read as the floor 5 and
  the volume that is the float \<^verbatim>\<open>1.2\<close>: the binary64 number nearest to \<open>12 / 10\<close>,
  which is \<open>5404319552844595 / 2 ^ 52\<close>, within \<open>2 ^ - 53\<close> of it.
\<close>

theorem unit_conversion:
  "fst (fetch_floor_price (\<lambda>i r. Response 200 (Some (JObj [(''floor'', JInt 5000000)]))) c w)
     = Inr (Some 5)
   \<and> read_metrics (JObj [(''floor_price'', JInt 5000000), (''asset_minted'', supply),
                         (''total_volume'', JInt 1234567)])
     = Inr (5, supply, nearest_double 12 10)
   \<and> nearest_double 12 10 = 5404319552844595 / 2 ^ 52
   \<and> \<bar>nearest_double 12 10 - 12 / 10\<bar> \<le> 1 / 2 ^ 53"
proof (intro conjI)
  show "fst (fetch_floor_price (\<lambda>i r. Response 200 (Some (JObj [(''floor'', JInt 5000000)]))) c w)
          = Inr (Some 5)"
    by (simp add: fetch_floor_price_eq floor_price_of_def div_million_5)
  show "read_metrics (JObj [(''floor_price'', JInt 5000000), (''asset_minted'', supply),
                            (''total_volume'', JInt 1234567)])
          = Inr (5, supply, nearest_double 12 10)"
    by (simp add: read_metrics_def div_million_5 div_million_volume round1_volume)
  show "nearest_double 12 10 = 5404319552844595 / 2 ^ 52"
    by (simp add: double_12_10)
  show "\<bar>nearest_double 12 10 - 12 / 10\<bar> \<le> 1 / 2 ^ 53"
    by (simp add: double_12_10)
qed

end
